theory Spec2Isabelle
  imports Complex_Main "HOL-Library.AList" "HOL-Library.List_Lexorder"
begin

section \<open>The mutual-information monitor of monitor/mutual\_info/mutual\_info.py\<close>

text \<open>
  The embedding follows the Python classes \<^verbatim>\<open>MutualInfo\<close>, \<^verbatim>\<open>MutualInfoBin\<close>,
  \<^verbatim>\<open>MutualInfoBinFixed\<close> and \<^verbatim>\<open>MutualInfoKMeans\<close>. Python dictionaries are association
  lists in insertion order (\<open>AList.update\<close> overwrites in place or appends, as a dict
  does), exceptions are values of \<open>error\<close>, and every method that mutates \<^verbatim>\<open>self\<close> or a
  layer takes the state and returns the new one. A method that returns nothing yields
  \<open>error option \<times> mi_state\<close>: the exception raised, if any, and the state left behind
  (a Python exception does not undo the assignments made before it).
  Floating-point numbers are idealised as \<open>real\<close>.
\<close>

subsection \<open>Data\<close>

datatype error = AssertionError | ZeroDivisionError | TypeError | AttributeError
  | ValueError

type_synonym layer_ref = nat

text \<open>
  A forward computation is a first-class Python callable. \<open>Method k\<close> is the bound method
  a module has before anyone patches it (\<open>k\<close> names the module's own computation);
  \<open>Forward_and_save i name f\<close> is the closure \<^verbatim>\<open>forward_and_save\<close> built by
  \<^verbatim>\<open>wrap_forward(layer_name=name, forward_orig=f)\<close>. Python compares closures by identity:
  \<open>i\<close> is the allocation number of the closure, so that structural equality of this
  datatype is that identity.
\<close>

datatype forward = Method nat | Forward_and_save nat string forward

text \<open>\<^verbatim>\<open>estimate_size\<close> is \<^verbatim>\<open>np.inf\<close> by default, or an integer.\<close>

datatype size_cap = Inf | Size int

fun below :: "int \<Rightarrow> size_cap \<Rightarrow> bool" where
  "below n Inf = True"
| "below n (Size c) = (n < c)"

fun at_least :: "int \<Rightarrow> size_cap \<Rightarrow> bool" where
  "at_least n Inf = False"
| "at_least n (Size c) = (c \<le> n)"

text \<open>A batch of samples: float rows, or integer labels.\<close>

datatype tensor = FloatTensor "real list list" | LongTensor "int list"

fun len :: "tensor \<Rightarrow> int" where
  "len (FloatTensor rows) = int (length rows)"
| "len (LongTensor labels) = int (length labels)"

text \<open>
  A value of the \<^verbatim>\<open>activations\<close> dictionary: the list of tensors buffered for a hidden
  layer, or the processed symbol array stored for \<^verbatim>\<open>'input'\<close> and \<^verbatim>\<open>'target'\<close>.
\<close>

datatype activation = Buffer "tensor list" | Array "int list"

record loader =
  batches :: "(tensor \<times> tensor) list"
  batch_size :: int

record mi_state =
  estimate_size :: size_cap
  compression_range :: "real \<times> real"
  debug :: bool
  n_bins :: "(string \<times> int) list"
  max_trials_adjust :: nat
  layers :: "(string \<times> layer_ref \<times> forward) list"
  activations :: "(string \<times> activation) list"
  quantized :: "(string \<times> activation) list"
  information :: "(string \<times> real \<times> real) list"
  is_active :: bool
  eval_loader :: "loader option"
  forward_of :: "layer_ref \<Rightarrow> forward"
  closures :: nat

text \<open>
  The last two fields are the part of the Python heap the monitor writes to:
  \<open>forward_of s l\<close> is the attribute \<^verbatim>\<open>forward\<close> of module \<open>l\<close>, and \<open>closures s\<close> counts
  the closures allocated so far. \<^verbatim>\<open>__init__\<close> leaves the heap alone.
\<close>

definition init :: "size_cap \<Rightarrow> real \<times> real \<Rightarrow> bool \<Rightarrow> (layer_ref \<Rightarrow> forward) \<Rightarrow> mi_state" where
  "init estimate_size' compression_range' debug' heap =
     \<lparr>estimate_size = estimate_size', compression_range = compression_range',
      debug = debug', n_bins = [], max_trials_adjust = 10, layers = [],
      activations = [], quantized = [], information = [], is_active = False,
      eval_loader = None, forward_of = heap, closures = 0\<rparr>"


definition n_bins_default :: int where
  "n_bins_default = 20"

text \<open>Reading a \<^verbatim>\<open>defaultdict\<close> inserts the default under a missing key.\<close>

definition get_activations :: "string \<Rightarrow> mi_state \<Rightarrow> activation \<times> mi_state" where
  "get_activations name s =
     (case map_of (activations s) name of
        Some v \<Rightarrow> (v, s)
      | None \<Rightarrow> (Buffer [], s\<lparr>activations := activations s @ [(name, Buffer [])]\<rparr>))"

definition get_n_bins :: "string \<Rightarrow> mi_state \<Rightarrow> int \<times> mi_state" where
  "get_n_bins name s =
     (case map_of (n_bins s) name of
        Some v \<Rightarrow> (v, s)
      | None \<Rightarrow> (0, s\<lparr>n_bins := n_bins s @ [(name, 0)]\<rparr>))"

subsection \<open>The activation interceptor\<close>

definition register :: "layer_ref \<Rightarrow> string \<Rightarrow> mi_state \<Rightarrow> mi_state" where
  "register layer name s =
     s\<lparr>layers := AList.update name (layer, forward_of s layer) (layers s)\<rparr>"

definition wrap_forward :: "nat \<Rightarrow> string \<Rightarrow> forward \<Rightarrow> forward" where
  "wrap_forward i layer_name forward_orig = Forward_and_save i layer_name forward_orig"

text \<open>
  Modelled from the spec: the decorator \<^verbatim>\<open>Schedule\<close> of \<^verbatim>\<open>monitor.batch_timer\<close> is not
  among the sources. The spec describes it as a predicate over the ambient epoch and
  batch counters with no side effects on the monitor; a call that the gate denies does
  not run the decorated body. Its decision at a call is the argument \<open>gate\<close>.
\<close>

definition wrap_layer :: "string \<times> layer_ref \<times> forward \<Rightarrow> mi_state \<Rightarrow> mi_state" where
  "wrap_layer entry s =
     (case entry of (name, layer, forward_orig) \<Rightarrow>
        if forward_of s layer = forward_orig
        then s\<lparr>forward_of := (forward_of s)(layer := wrap_forward (closures s) name forward_orig),
               closures := Suc (closures s)\<rparr>
        else s)"

definition start_listening :: "bool \<Rightarrow> mi_state \<Rightarrow> mi_state" where
  "start_listening gate s =
     (if gate then (fold wrap_layer (layers s) s)\<lparr>is_active := True\<rparr> else s)"

definition restore_layer :: "string \<times> layer_ref \<times> forward \<Rightarrow> mi_state \<Rightarrow> mi_state" where
  "restore_layer entry s =
     (case entry of (name, layer, forward_orig) \<Rightarrow>
        s\<lparr>forward_of := (forward_of s)(layer := forward_orig)\<rparr>)"

definition total_len :: "tensor list \<Rightarrow> int" where
  "total_len ts = sum_list (map len ts)"

text \<open>
  \<^verbatim>\<open>save_activations\<close>: on a buffer the tensor is appended while the buffered sample count
  is below the cap. On a symbol array (a layer registered under \<^verbatim>\<open>'input'\<close> or
  \<^verbatim>\<open>'target'\<close> after \<^verbatim>\<open>prepare\<close>) \<^verbatim>\<open>len\<close> of a numpy integer raises TypeError, and an empty
  array has no \<^verbatim>\<open>append\<close>.
\<close>

definition save_activations :: "string \<Rightarrow> tensor \<Rightarrow> mi_state \<Rightarrow> error option \<times> mi_state" where
  "save_activations layer_name t s =
     (case get_activations layer_name s of
        (Buffer ts, s1) \<Rightarrow>
          if below (total_len ts) (estimate_size s1)
          then (None, s1\<lparr>activations := AList.update layer_name (Buffer (ts @ [t])) (activations s1)\<rparr>)
          else (None, s1)
      | (Array xs, s1) \<Rightarrow>
          if xs \<noteq> [] then (Some TypeError, s1)
          else if below 0 (estimate_size s1) then (Some AttributeError, s1)
          else (None, s1))"

text \<open>
  Calling a forward computation. \<open>sem k x\<close> is what the module's own method \<open>k\<close> returns
  on \<open>x\<close> (the layers are external collaborators); the closure is the body of
  \<^verbatim>\<open>forward_and_save\<close>.
\<close>

fun call_forward :: "(nat \<Rightarrow> tensor \<Rightarrow> error + tensor) \<Rightarrow> forward \<Rightarrow> tensor \<Rightarrow> mi_state
    \<Rightarrow> (error + tensor) \<times> mi_state" where
  "call_forward sem (Method k) x s = (sem k x, s)"
| "call_forward sem (Forward_and_save i layer_name forward_orig) x s =
     (if \<not> is_active s then (Inl AssertionError, s)
      else case call_forward sem forward_orig x s of
             (Inl e, s1) \<Rightarrow> (Inl e, s1)
           | (Inr output, s1) \<Rightarrow>
               (case save_activations layer_name output s1 of
                  (Some e, s2) \<Rightarrow> (Inl e, s2)
                | (None, s2) \<Rightarrow> (Inr output, s2)))"

definition call_layer :: "(nat \<Rightarrow> tensor \<Rightarrow> error + tensor) \<Rightarrow> layer_ref \<Rightarrow> tensor \<Rightarrow> mi_state
    \<Rightarrow> (error + tensor) \<times> mi_state" where
  "call_layer sem layer x s = call_forward sem (forward_of s layer) x s"

subsection \<open>Result computation\<close>

definition hidden_layer_names :: "mi_state \<Rightarrow> string list" where
  "hidden_layer_names s =
     filter (\<lambda>name. name \<notin> set [''input'', ''target'']) (map fst (activations s))"

text \<open>
  \<^verbatim>\<open>_compute_async\<close> runs in a worker on a copy of the monitor, so what it assigns to
  \<^verbatim>\<open>self\<close> is lost and only its result counts. \<open>process\<close> is the abstract method of the
  class, \<open>mutual_info\<close> is \<^verbatim>\<open>compute_mutual_info\<close> (scikit-learn's score, external).
  The entries handed over are buffers; a symbol array in their place is no list of
  tensors to concatenate (TypeError). The results come back in the order of the
  arguments, and the first exception among them ends the merge. The names popped in
  \<^verbatim>\<open>save_information_async\<close> are keys of the dictionary, so each lookup finds its entry.

  The pool pickles the monitor with every task it is given. A closure
  \<^verbatim>\<open>forward_and_save\<close> is a local function, which cannot be pickled: when one is recorded
  in \<^verbatim>\<open>layers\<close>, or is the forward computation of a registered module, fetching the
  first result raises AttributeError and nothing is merged. Without tasks nothing is
  pickled.
\<close>

fun is_closure :: "forward \<Rightarrow> bool" where
  "is_closure (Method k) = False"
| "is_closure (Forward_and_save i layer_name forward_orig) = True"

definition picklable :: "mi_state \<Rightarrow> bool" where
  "picklable s =
     list_all (\<lambda>(name, layer, forward_orig).
                 \<not> is_closure forward_orig \<and> \<not> is_closure (forward_of s layer))
       (layers s)"

type_synonym process_fn =
  "mi_state \<Rightarrow> string \<Rightarrow> tensor list \<Rightarrow> (error + int list) \<times> mi_state"

type_synonym mutual_info_fn = "activation \<Rightarrow> int list \<Rightarrow> error + real"

definition compute_async :: "process_fn \<Rightarrow> mutual_info_fn \<Rightarrow> mi_state \<Rightarrow> string \<times> activation
    \<Rightarrow> error + (string \<times> int list \<times> real \<times> real \<times> int)" where
  "compute_async process mutual_info s args =
     (case args of
        (name, Array xs) \<Rightarrow> Inl TypeError
      | (name, Buffer ts) \<Rightarrow>
          (case process s name ts of
             (Inl e, s1) \<Rightarrow> Inl e
           | (Inr quantized', s1) \<Rightarrow>
               (let s2 = snd (get_activations ''input'' s1);
                    s3 = snd (get_activations ''target'' s2)
                in (case mutual_info (fst (get_activations ''input'' s1)) quantized' of
                      Inl e \<Rightarrow> Inl e
                    | Inr info_x \<Rightarrow>
                        (case mutual_info (fst (get_activations ''target'' s2)) quantized' of
                           Inl e \<Rightarrow> Inl e
                         | Inr info_y \<Rightarrow>
                             Inr (name, quantized', info_x, info_y,
                                  fst (get_n_bins name s3)))))))"

fun merge_results :: "(error + (string \<times> int list \<times> real \<times> real \<times> int)) list \<Rightarrow> mi_state
    \<Rightarrow> error option \<times> mi_state" where
  "merge_results [] s = (None, s)"
| "merge_results (Inl e # rs) s = (Some e, s)"
| "merge_results (Inr (hname, quantized', info_x, info_y, n_bins') # rs) s =
     merge_results rs
       (s\<lparr>information := AList.update hname (info_x, info_y) (information s),
          quantized := AList.update hname (Array quantized') (quantized s),
          n_bins := AList.update hname n_bins' (n_bins s)\<rparr>)"

definition pop_activations :: "string \<Rightarrow> mi_state \<Rightarrow> mi_state" where
  "pop_activations hname s = s\<lparr>activations := AList.delete hname (activations s)\<rparr>"

definition save_information_async :: "process_fn \<Rightarrow> mutual_info_fn \<Rightarrow> mi_state
    \<Rightarrow> error option \<times> mi_state" where
  "save_information_async process mutual_info s =
     (case get_activations ''input'' s of (input, s1) \<Rightarrow>
        let s2 = s1\<lparr>quantized := [(''input'', input)]\<rparr>;
            names = hidden_layer_names s2;
            args = map (\<lambda>hname. (hname, the (map_of (activations s2) hname))) names;
            s3 = fold pop_activations names s2
        in if args \<noteq> [] \<and> \<not> picklable s3 then (Some AttributeError, s3)
           else merge_results (map (compute_async process mutual_info s3) args) s3)"

definition finish_listening :: "process_fn \<Rightarrow> mutual_info_fn \<Rightarrow> mi_state
    \<Rightarrow> error option \<times> mi_state" where
  "finish_listening process mutual_info s =
     (if \<not> is_active s then (None, s)
      else save_information_async process mutual_info
             ((fold restore_layer (layers s) s)\<lparr>is_active := False\<rparr>))"

subsection \<open>Driving an estimation pass\<close>

text \<open>
  The model under observation is an external collaborator. As in \<^verbatim>\<open>NetBinary\<close> of
  main.py it is a chain of modules, each called on the output of the one before; an
  exception leaves the chain at once.
\<close>

fun run_model :: "(nat \<Rightarrow> tensor \<Rightarrow> error + tensor) \<Rightarrow> layer_ref list \<Rightarrow> tensor \<Rightarrow> mi_state
    \<Rightarrow> (error + tensor) \<times> mi_state" where
  "run_model sem [] x s = (Inr x, s)"
| "run_model sem (layer # rest) x s =
     (case call_layer sem layer x s of
        (Inl e, s1) \<Rightarrow> (Inl e, s1)
      | (Inr y, s1) \<Rightarrow> run_model sem rest y s1)"

fun eval_batches :: "(nat \<Rightarrow> tensor \<Rightarrow> error + tensor) \<Rightarrow> layer_ref list \<Rightarrow> int \<Rightarrow> int
    \<Rightarrow> (tensor \<times> tensor) list \<Rightarrow> mi_state \<Rightarrow> error option \<times> mi_state" where
  "eval_batches sem model bsize batch_id [] s = (None, s)"
| "eval_batches sem model bsize batch_id ((images, labels) # rest) s =
     (case run_model sem model images s of
        (Inl e, s1) \<Rightarrow> (Some e, s1)
      | (Inr y, s1) \<Rightarrow>
          if at_least (batch_id * bsize) (estimate_size s1) then (None, s1)
          else eval_batches sem model bsize (batch_id + 1) rest s1)"

definition update :: "bool \<Rightarrow> process_fn \<Rightarrow> mutual_info_fn \<Rightarrow> (nat \<Rightarrow> tensor \<Rightarrow> error + tensor)
    \<Rightarrow> layer_ref list \<Rightarrow> mi_state \<Rightarrow> error option \<times> mi_state" where
  "update gate process mutual_info sem model s =
     (case eval_loader s of
        None \<Rightarrow> (None, s)
      | Some loader' \<Rightarrow>
          let s1 = start_listening gate s in
          if \<not> is_active s1 then (None, s1)
          else (case eval_batches sem model (batch_size loader') 0 (batches loader') s1 of
                  (Some e, s2) \<Rightarrow> (Some e, s2)
                | (None, s2) \<Rightarrow> finish_listening process mutual_info s2))"

text \<open>
  \<^verbatim>\<open>decorate_evaluation(func)\<close> returns \<^verbatim>\<open>wrapped\<close>; \<open>func\<close> is any computation on the
  state. An exception of \<open>func\<close> leaves before \<^verbatim>\<open>finish_listening\<close>.
\<close>

definition decorate_evaluation :: "bool \<Rightarrow> process_fn \<Rightarrow> mutual_info_fn
    \<Rightarrow> (mi_state \<Rightarrow> (error + 'a) \<times> mi_state) \<Rightarrow> mi_state \<Rightarrow> (error + 'a) \<times> mi_state" where
  "decorate_evaluation gate process mutual_info func s =
     (case func (start_listening gate s) of
        (Inl e, s1) \<Rightarrow> (Inl e, s1)
      | (Inr res, s1) \<Rightarrow>
          (case finish_listening process mutual_info s1 of
             (Some e, s2) \<Rightarrow> (Inl e, s2)
           | (None, s2) \<Rightarrow> (Inr res, s2)))"



subsection \<open>Quantization: the bin-count search and the symbol alphabet\<close>

text \<open>
  \<^verbatim>\<open>np.unique(digitized, axis=0)\<close> returns the distinct rows in ascending (lexicographic)
  order; with \<^verbatim>\<open>return_inverse=True\<close> also, for every row, its position among them.
\<close>

definition unique :: "'r::linorder list \<Rightarrow> 'r list" where
  "unique xs = sort (remdups xs)"

definition index_of :: "'r list \<Rightarrow> 'r \<Rightarrow> int" where
  "index_of us x = int (length (takeWhile (\<lambda>u. u \<noteq> x) us))"

definition inverse_of :: "'r::linorder list \<Rightarrow> int list" where
  "inverse_of xs = map (index_of (unique xs)) xs"

text \<open>\<^verbatim>\<open>int(x)\<close> of a float truncates towards zero.\<close>

definition int_of_float :: "real \<Rightarrow> int" where
  "int_of_float x = (if 0 \<le> x then \<lfloor>x\<rfloor> else \<lceil>x\<rceil>)"

text \<open>
  \<open>digitize\<close> is the abstract method of \<^verbatim>\<open>MutualInfoBin\<close>: from the layer name, the
  activation matrix (one row per sample) and the bin count to the digitized rows, or an
  exception.
\<close>

type_synonym 'r digitize_fn = "string \<Rightarrow> real list list \<Rightarrow> int \<Rightarrow> error + 'r list"

text \<open>A \<^verbatim>\<open>digitize\<close> that returns on every input, given by the array it returns.\<close>

definition returning :: "(string \<Rightarrow> real list list \<Rightarrow> int \<Rightarrow> 'r list) \<Rightarrow> 'r digitize_fn" where
  "returning digitized layer_name acts n_bins' = Inr (digitized layer_name acts n_bins')"

text \<open>
  The \<^verbatim>\<open>compression\<close> of a trial, and the body of the loop of \<^verbatim>\<open>adjust_bins\<close>: from the
  bin count of the trial to the next bin count and whether the loop is left
  (\<^verbatim>\<open>break\<close>). Python's \<^verbatim>\<open>/\<close> on integers raises on a zero divisor.
\<close>

definition compression :: "real list list \<Rightarrow> 'r::linorder list \<Rightarrow> real" where
  "compression acts digitized =
     real_of_int (int (length acts) - int (length (unique digitized)))
       / real_of_int (int (length acts))"

definition trial :: "'r::linorder digitize_fn \<Rightarrow> real \<times> real \<Rightarrow> string \<Rightarrow> real list list
    \<Rightarrow> int \<Rightarrow> error + (int \<times> bool)" where
  "trial digitize crange layer_name acts n_bins' =
     (case digitize layer_name acts n_bins' of
        Inl e \<Rightarrow> Inl e
      | Inr digitized \<Rightarrow>
          if length acts = 0 then Inl ZeroDivisionError
          else if compression acts digitized > snd crange then Inr (n_bins' * 2, False)
          else if compression acts digitized < fst crange then
            (let halved = max 2 (int_of_float (real_of_int n_bins' / 2))
             in Inr (halved, halved = 2))
          else Inr (n_bins', True))"

text \<open>
  The loop, with the trials that remain as the recursion argument. Besides the bin count
  it returns the bin counts it has digitized with, in order: one entry per trial.
\<close>

fun adjust_loop :: "'r::linorder digitize_fn \<Rightarrow> real \<times> real \<Rightarrow> string \<Rightarrow> real list list
    \<Rightarrow> nat \<Rightarrow> int \<Rightarrow> error + (int \<times> int list)" where
  "adjust_loop digitize crange layer_name acts 0 n_bins' = Inr (n_bins', [])"
| "adjust_loop digitize crange layer_name acts (Suc trials) n_bins' =
     (case trial digitize crange layer_name acts n_bins' of
        Inl e \<Rightarrow> Inl e
      | Inr (next_bins, stop) \<Rightarrow>
          if stop then Inr (next_bins, [n_bins'])
          else (case adjust_loop digitize crange layer_name acts trials next_bins of
                  Inl e \<Rightarrow> Inl e
                | Inr (final, tried) \<Rightarrow> Inr (final, n_bins' # tried)))"

definition adjust_bins_trials :: "'r::linorder digitize_fn \<Rightarrow> mi_state \<Rightarrow> string \<Rightarrow> real list list
    \<Rightarrow> error + (int \<times> int list)" where
  "adjust_bins_trials digitize s layer_name acts =
     adjust_loop digitize (compression_range s) layer_name acts (max_trials_adjust s)
       n_bins_default"


definition quantize :: "'r::linorder digitize_fn \<Rightarrow> string \<Rightarrow> real list list \<Rightarrow> int
    \<Rightarrow> error + int list" where
  "quantize digitize layer_name acts n_bins' =
     (case digitize layer_name acts n_bins' of
        Inl e \<Rightarrow> Inl e
      | Inr digitized \<Rightarrow> Inr (inverse_of digitized))"

subsection \<open>Digitization: fixed range\<close>

text \<open>
  \<^verbatim>\<open>MutualInfoBinFixed.digitize\<close>. Mean and unbiased standard deviation are taken along
  dimension 0, that is per column. Where the float computation yields NaN (a single
  sample, whose deviation is 0/0, or a constant column, whose range is empty) nothing is
  raised: the cast to a 64-bit integer tensor turns NaN into the least 64-bit integer.
\<close>

definition column :: "nat \<Rightarrow> real list list \<Rightarrow> real list" where
  "column j rows = map (\<lambda>row. row ! j) rows"

definition mean :: "real list \<Rightarrow> real" where
  "mean xs = sum_list xs / real (length xs)"

definition std :: "real list \<Rightarrow> real" where
  "std xs = sqrt (sum_list (map (\<lambda>x. (x - mean xs)\<^sup>2) xs) / (real (length xs) - 1))"

definition clamp :: "real \<Rightarrow> real \<Rightarrow> real \<Rightarrow> real" where
  "clamp lo hi x = min (max x lo) hi"

definition digitize_entry :: "int \<Rightarrow> real list \<Rightarrow> real \<Rightarrow> int" where
  "digitize_entry n_bins' col x =
     (let dim0_min = mean col - 2 * std col;
          dim0_max = mean col + 2 * std col
      in int_of_float
           (clamp 0 (real_of_int n_bins')
              (real_of_int n_bins' * (x - dim0_min) / (dim0_max - dim0_min))))"

definition is_nan_column :: "real list \<Rightarrow> bool" where
  "is_nan_column col = (length col < 2 \<or> list_all (\<lambda>x. x = hd col) col)"

definition int64_min :: int where
  "int64_min = - (2 ^ 63)"

definition digitized_fixed :: "real list list \<Rightarrow> int \<Rightarrow> int list list" where
  "digitized_fixed acts n_bins' =
     map (\<lambda>row. map (\<lambda>j. if is_nan_column (column j acts) then int64_min
                          else digitize_entry n_bins' (column j acts) (row ! j))
                    [0 ..< length row]) acts"

definition digitize_fixed :: "(int list) digitize_fn" where
  "digitize_fixed layer_name acts n_bins' = Inr (digitized_fixed acts n_bins')"

subsection \<open>Digitization: quantiles\<close>

text \<open>
  \<^verbatim>\<open>MutualInfoQuantile.digitize\<close>. \<^verbatim>\<open>np.linspace(0, 100, num)\<close> gives \<open>num\<close> equally spaced
  percentages and raises ValueError for a negative \<open>num\<close>; \<^verbatim>\<open>np.percentile\<close> interpolates
  linearly between the two nearest order statistics of a column;
  \<^verbatim>\<open>np.digitize(x, bins, right=True)\<close> on ascending breakpoints is the number of
  breakpoints below \<open>x\<close>.
\<close>

definition linspace :: "int \<Rightarrow> real list" where
  "linspace num =
     (if num = 1 then [0]
      else map (\<lambda>i. 100 * real i / real_of_int (num - 1)) [0 ..< nat num])"

definition percentile :: "real list \<Rightarrow> real \<Rightarrow> real" where
  "percentile col q =
     (let ordered = sort col;
          pos = q / 100 * (real (length col) - 1);
          lo = nat \<lfloor>pos\<rfloor>;
          hi = min (lo + 1) (length col - 1)
      in ordered ! lo + (pos - real lo) * (ordered ! hi - ordered ! lo))"

definition np_digitize :: "real \<Rightarrow> real list \<Rightarrow> int" where
  "np_digitize x bins = int (length (filter (\<lambda>b. b < x) bins))"

definition digitized_quantile :: "real list list \<Rightarrow> int \<Rightarrow> int list list" where
  "digitized_quantile acts n_bins' =
     map (\<lambda>row. map (\<lambda>j. np_digitize (row ! j)
                            (map (percentile (column j acts)) (linspace n_bins')))
                    [0 ..< length row]) acts"

definition digitize_quantile :: "(int list) digitize_fn" where
  "digitize_quantile layer_name acts n_bins' =
     (if n_bins' < 0 then Inl ValueError else Inr (digitized_quantile acts n_bins'))"

subsection \<open>Digitization: k-means\<close>

text \<open>
  \<^verbatim>\<open>MutualInfoKMeans\<close>. scikit-learn's \<^verbatim>\<open>MiniBatchKMeans(n_clusters).fit_predict\<close> is an
  external, randomised routine; \<open>fit_predict\<close> stands for the call the method makes.
\<close>

definition digitize_kmeans :: "(int \<Rightarrow> real list list \<Rightarrow> error + int list) \<Rightarrow> int digitize_fn" where
  "digitize_kmeans fit_predict layer_name acts n_bins' = fit_predict n_bins' acts"

definition quantize_kmeans :: "(int \<Rightarrow> real list list \<Rightarrow> error + int list)
    \<Rightarrow> string \<Rightarrow> real list list \<Rightarrow> int \<Rightarrow> error + int list" where
  "quantize_kmeans fit_predict layer_name acts n_bins' =
     digitize_kmeans fit_predict layer_name acts n_bins'"

subsection \<open>Reporting\<close>

text \<open>
  The plotting collaborator is a sink: the calls made on it are collected in order.
  A legend entry \<^verbatim>\<open>f'{name} ({n} bins)'\<close> is kept as the pair it is formatted from.
  \<open>win_exists\<close> is the collaborator's answer to \<^verbatim>\<open>viz.win_exists\<close>.
\<close>

datatype label = Name_bins string int

datatype ndarray = Vec "real list" | Mat "real list list"

datatype viz_call =
    Bar "int list" "int list" string
  | Boxplot "real list list" "label list"
  | Line ndarray ndarray "string list" bool

text \<open>
  \<^verbatim>\<open>np.unique(a, return_counts=True)\<close> works on the flattened values. A quantized entry is
  a symbol array, or the list found under \<^verbatim>\<open>'input'\<close> when \<^verbatim>\<open>prepare\<close> never ran.
\<close>

fun flatten :: "tensor \<Rightarrow> real list" where
  "flatten (FloatTensor rows) = concat rows"
| "flatten (LongTensor labels) = map real_of_int labels"

fun values_of :: "activation \<Rightarrow> real list" where
  "values_of (Array xs) = map real_of_int xs"
| "values_of (Buffer ts) = concat (map flatten ts)"

definition unique_counts :: "real list \<Rightarrow> int list" where
  "unique_counts vals = map (\<lambda>v. int (count_list vals v)) (unique vals)"

definition plot_quantized_hist :: "mi_state \<Rightarrow> viz_call list" where
  "plot_quantized_hist s =
     map (\<lambda>(name, layer_quantized).
            let counts = rev (sort (unique_counts (values_of layer_quantized)))
            in Bar (map int [0 ..< length counts]) counts (name @ '' MI hist''))
         (quantized s)"

fun read_n_bins :: "string list \<Rightarrow> mi_state \<Rightarrow> int list \<times> mi_state" where
  "read_n_bins [] s = ([], s)"
| "read_n_bins (name # names) s =
     (case get_n_bins name s of (n, s1) \<Rightarrow>
        case read_n_bins names s1 of (ns, s2) \<Rightarrow> (n # ns, s2))"

text \<open>
  \<^verbatim>\<open>counts[layer_id, :len(layer_counts)] = layer_counts\<close> on a row of \<open>n\<close> zeros: the
  counts fill the front of the row; more counts than columns cannot be broadcast
  (ValueError), a single count excepted.
\<close>

fun fill_counts :: "int \<Rightarrow> (string \<times> activation) list \<Rightarrow> error + real list list" where
  "fill_counts n [] = Inr []"
| "fill_counts n ((name, layer_quantized) # rest) =
     (let layer_counts = unique_counts (values_of layer_quantized);
          k = int (length layer_counts)
      in if k \<le> n \<or> k = 1 then
           (case fill_counts n rest of
              Inl e \<Rightarrow> Inl e
            | Inr rows \<Rightarrow>
                Inr (take (nat n) (map real_of_int layer_counts @ replicate (nat (n - k)) 0)
                     # rows))
         else Inl ValueError)"

text \<open>
  \<^verbatim>\<open>np.vstack\<close> needs at least one array and rows of one length. A list of buffered
  tensors among the values is not a row: ValueError.
\<close>

fun as_row :: "activation \<Rightarrow> error + real list" where
  "as_row (Array xs) = Inr (map real_of_int xs)"
| "as_row (Buffer []) = Inr []"
| "as_row (Buffer (t # ts)) = Inl ValueError"

fun vstack :: "activation list \<Rightarrow> error + real list list" where
  "vstack [] = Inl ValueError"
| "vstack [a] = (case as_row a of Inl e \<Rightarrow> Inl e | Inr row \<Rightarrow> Inr [row])"
| "vstack (a # b # rest) =
     (case as_row a of
        Inl e \<Rightarrow> Inl e
      | Inr row \<Rightarrow>
          (case vstack (b # rest) of
             Inl e \<Rightarrow> Inl e
           | Inr rows \<Rightarrow>
               if length row = length (hd rows) then Inr (row # rows) else Inl ValueError))"

definition plot_quantized_dispersion :: "bool \<Rightarrow> mi_state
    \<Rightarrow> error option \<times> mi_state \<times> viz_call list" where
  "plot_quantized_dispersion gate s =
     (if \<not> gate then (None, s, [])
      else if 0 \<in> set (map snd (n_bins s)) then (None, s, [])
      else
        (case read_n_bins (map fst (quantized s)) s of (bins, s1) \<Rightarrow>
           let legend = map (\<lambda>(name, n). Name_bins name n) (zip (map fst (quantized s)) bins);
               hist = (if debug s1 then plot_quantized_hist s1 else [])
           in if length (remdups bins) = 1 then
                (case get_n_bins ''input'' s1 of (n, s2) \<Rightarrow>
                   if n < 0 then (Some ValueError, s2, [])
                   else (case fill_counts n (quantized s2) of
                           Inl e \<Rightarrow> (Some e, s2, [])
                         | Inr counts \<Rightarrow>
                             (None, s2, Boxplot (transpose counts) legend # hist)))
              else
                (case vstack (map snd (quantized s1)) of
                   Inl e \<Rightarrow> (Some e, s1, [])
                 | Inr rows \<Rightarrow> (None, s1, Boxplot (transpose rows) legend # hist))))"

definition drain_item :: "string \<times> real \<times> real
    \<Rightarrow> real list \<times> real list \<times> string list \<times> mi_state
    \<Rightarrow> real list \<times> real list \<times> string list \<times> mi_state" where
  "drain_item item acc =
     (case (item, acc) of ((layer_name, info_x, info_y), (ys, xs, legend, s)) \<Rightarrow>
        (ys @ [info_y], xs @ [info_x], legend @ [layer_name],
         s\<lparr>information := AList.delete layer_name (information s)\<rparr>))"

definition plot :: "bool \<Rightarrow> (string \<Rightarrow> bool) \<Rightarrow> mi_state
    \<Rightarrow> error option \<times> mi_state \<times> viz_call list" where
  "plot gate win_exists s =
     (if is_active s then (Some AssertionError, s, [])
      else if length (information s) = 0 then (None, s, [])
      else
        (case plot_quantized_dispersion gate s of
           (Some e, s1, calls) \<Rightarrow> (Some e, s1, calls)
         | (None, s1, calls) \<Rightarrow>
             (case fold drain_item (information s1) ([], [], [], s1) of
                (ys, xs, legend, s2) \<Rightarrow>
                  (None, s2,
                   calls @ [Line (if length ys > 1 then Mat [ys] else Vec ys)
                                 (if length ys > 1 then Mat [xs] else Vec xs)
                                 legend (win_exists ''Mutual information plane'')]))))"

subsection \<open>Runs of the monitor\<close>





subsection \<open>Predicates and concrete data of the statements below\<close>



text \<open>
  A monitor built with the constructor's defaults over modules that still have their own
  methods; a \<^verbatim>\<open>process\<close> that gives every sample the symbol 0, a constant score,
  layers that return their input, and layers that raise.
\<close>

definition fresh :: mi_state where
  "fresh = init Inf (1 / 2, 999 / 1000) False Method"

definition example_process :: process_fn where
  "example_process s name ts = (Inr (replicate (nat (total_len ts)) 0), s)"

definition example_mutual_info :: mutual_info_fn where
  "example_mutual_info a q = Inr 0"

definition example_sem :: "nat \<Rightarrow> tensor \<Rightarrow> error + tensor" where
  "example_sem k x = Inr x"

definition failing_sem :: "nat \<Rightarrow> tensor \<Rightarrow> error + tensor" where
  "failing_sem k x = Inl ValueError"

text \<open>
  Nine samples of one feature, eight of them equal, and a clustering that puts the eight
  into cluster 2 and the ninth into cluster 0.
\<close>

definition nine_samples :: "real list list" where
  "nine_samples = [[0], [0], [0], [0], [0], [0], [0], [0], [1]]"

definition example_fit_predict :: "int \<Rightarrow> real list list \<Rightarrow> error + int list" where
  "example_fit_predict n_clusters acts = Inr (map (\<lambda>row. if row = [0] then 2 else 0) acts)"

text \<open>A plotting collaborator without windows.\<close>

definition no_windows :: "string \<Rightarrow> bool" where
  "no_windows title = False"

text \<open>
  Module 0 is registered as \<^verbatim>\<open>'a'\<close>, a pass starts, and module 0 is registered again as
  \<^verbatim>\<open>'b'\<close> while wrapped.
\<close>

definition registered :: mi_state where
  "registered = register 0 ''a'' fresh"

definition listening :: mi_state where
  "listening = start_listening True registered"

definition registered_wrapped :: mi_state where
  "registered_wrapped = register 0 ''b'' listening"






text \<open>
  A monitor after a pass in which \<^verbatim>\<open>'input'\<close> and \<^verbatim>\<open>'fc1'\<close> were both quantized with two
  bins, the four input samples to four distinct symbols.
\<close>

definition crowded :: mi_state where
  "crowded = fresh\<lparr>n_bins := [(''input'', 2), (''fc1'', 2)],
                   quantized := [(''input'', Array [0, 1, 2, 3]), (''fc1'', Array [0, 1, 1, 0])],
                   information := [(''fc1'', 1, 1 / 2)]\<rparr>"

section \<open>Properties\<close>

subsection \<open>What the interceptor leaves alone\<close>

lemma get_activations_frame:
  "layers (snd (get_activations name s)) = layers s"
  "forward_of (snd (get_activations name s)) = forward_of s"
  "is_active (snd (get_activations name s)) = is_active s"
  "estimate_size (snd (get_activations name s)) = estimate_size s"
  by (simp_all add: get_activations_def split: option.splits)














lemma save_activations_buffer:
  assumes "fst (get_activations name s) = Buffer ts"
  shows "save_activations name t s =
     (None,
      if below (total_len ts) (estimate_size s)
      then (snd (get_activations name s))
             \<lparr>activations := AList.update name (Buffer (ts @ [t]))
                               (activations (snd (get_activations name s)))\<rparr>
      else snd (get_activations name s))"
proof -
  obtain a s1 where g: "get_activations name s = (a, s1)" by (cases "get_activations name s")
  have e: "estimate_size s1 = estimate_size s"
    using get_activations_frame(4) [of name s] g by simp
  show ?thesis using assms g e by (simp add: save_activations_def)
qed

lemma fresh_fields:
  "layers fresh = []" "forward_of fresh = Method" "\<not> is_active fresh"
  "eval_loader fresh = None" "closures fresh = 0" "estimate_size fresh = Inf"
  "activations fresh = []" "max_trials_adjust fresh = 10"
  "compression_range fresh = (1 / 2, 999 / 1000)"
  by (simp_all add: fresh_def init_def)

lemma registered_fields:
  "layers registered = [(''a'', 0, Method 0)]" "forward_of registered = Method"
  "\<not> is_active registered" "eval_loader registered = None" "closures registered = 0"
  "estimate_size registered = Inf" "activations registered = []"
  by (simp_all add: registered_def register_def fresh_fields)

lemma listening_fields:
  "layers listening = [(''a'', 0, Method 0)]"
  "forward_of listening = Method(0 := Forward_and_save 0 ''a'' (Method 0))"
  "is_active listening" "estimate_size listening = Inf" "activations listening = []"
  by (simp_all add: listening_def start_listening_def wrap_layer_def wrap_forward_def
      registered_fields)

subsection \<open>The claims about the interceptor\<close>









text \<open>
  C3, as amended. \<^verbatim>\<open>update\<close> before \<^verbatim>\<open>prepare\<close> (the evaluation loader unset) is a silent
  no-op: it returns without raising and leaves the state as it was, so no wrapper is
  installed and the session is not set active. \<^verbatim>\<open>start_listening\<close> itself is a no-op
  when the scheduling gate denies the call.
\<close>

theorem update_before_prepare:
  "(eval_loader s = None \<longrightarrow> update gate process mutual_info sem model s = (None, s))
   \<and> start_listening False s = s"
  by (simp add: update_def start_listening_def)

theorem update_before_prepare_witness:
  "eval_loader registered = None
   \<and> update True example_process example_mutual_info example_sem [0] registered
       = (None, registered)"
  using update_before_prepare [of registered True example_process example_mutual_info
      example_sem "[0]"]
  by (simp add: registered_fields)

text \<open>
  C3 as stated fails: \<^verbatim>\<open>start_listening\<close> does not look at the evaluation loader. With
  the loader unset and the gate open it wraps the registered layer and sets the session
  active.
\<close>

theorem start_listening_before_prepare:
  "eval_loader registered = None
   \<and> is_active (start_listening True registered)
   \<and> forward_of (start_listening True registered) 0 = Forward_and_save 0 ''a'' (Method 0)
   \<and> forward_of registered 0 = Method 0"
  using listening_fields by (simp add: registered_fields listening_def)















text \<open>
  C5. When the session is not active, \<^verbatim>\<open>finish_listening\<close> returns without raising and
  leaves the whole state as it was: every layer's forward computation, the activation
  buffers, the quantized cache, the information record, the bin counts and the flag; the
  result computation is not started.
\<close>

theorem finish_listening_inactive:
  "\<not> is_active s \<Longrightarrow> finish_listening process mutual_info s = (None, s)"
  by (simp add: finish_listening_def)

theorem finish_listening_inactive_witness:
  "\<not> is_active registered
   \<and> finish_listening example_process example_mutual_info registered = (None, registered)"
  using finish_listening_inactive [of registered example_process example_mutual_info]
  by (simp add: registered_fields)

text \<open>
  C10. \<^verbatim>\<open>register\<close> leaves every module's forward computation as it is and changes
  nothing but the \<^verbatim>\<open>layers\<close> dictionary, where it stores under the name the module
  together with the module's forward computation at the time of the call, whatever was
  stored under that name before and whether or not that computation is a wrapper; the
  entries under other names stay.
\<close>

theorem register_spec:
  "forward_of (register layer name s) = forward_of s
   \<and> map_of (layers (register layer name s)) name = Some (layer, forward_of s layer)
   \<and> (\<forall>other. other \<noteq> name \<longrightarrow>
        map_of (layers (register layer name s)) other = map_of (layers s) other)
   \<and> register layer name s = s\<lparr>layers := layers (register layer name s)\<rparr>"
  by (simp add: register_def update_conv')

theorem register_spec_witness:
  "forward_of registered_wrapped = forward_of listening
   \<and> map_of (layers registered_wrapped) ''b'' = Some (0, Forward_and_save 0 ''a'' (Method 0))
   \<and> ''a'' \<noteq> ''b''
   \<and> map_of (layers registered_wrapped) ''a'' = map_of (layers listening) ''a''
   \<and> map_of (layers (register 0 ''a'' listening)) ''a''
       = Some (0, Forward_and_save 0 ''a'' (Method 0))"
  using register_spec [of 0 "''b''" listening] register_spec [of 0 "''a''" listening]
  by (simp add: registered_wrapped_def listening_fields)

subsection \<open>The bin-count search\<close>

lemma set_unique: "set (unique xs) = set xs"
  by (simp add: unique_def)

lemma distinct_unique: "distinct (unique xs)"
  by (simp add: unique_def)

lemma length_unique: "length (unique xs) = card (set xs)"
  by (metis distinct_card distinct_unique set_unique)







lemma length_digitized_fixed: "length (digitized_fixed acts n) = length acts"
  by (simp add: digitized_fixed_def)


lemma clamp_range:
  "0 \<le> n \<Longrightarrow> 0 \<le> int_of_float (clamp 0 (real_of_int n) v)
     \<and> int_of_float (clamp 0 (real_of_int n) v) \<le> n"
  by (auto simp add: clamp_def int_of_float_def min_def max_def floor_le_iff le_floor_iff)

lemma digitize_entry_range:
  "0 \<le> n \<Longrightarrow> 0 \<le> digitize_entry n col x \<and> digitize_entry n col x \<le> n"
  by (simp add: digitize_entry_def Let_def clamp_range)

lemma digitized_fixed_range:
  assumes "0 \<le> n" and "i < length acts" and "j < length (acts ! i)"
    and "\<not> is_nan_column (column j acts)"
  shows "0 \<le> digitized_fixed acts n ! i ! j \<and> digitized_fixed acts n ! i ! j \<le> n"
  using assms by (simp add: digitized_fixed_def digitize_entry_range)

lemma sqrt_ninth: "sqrt (1 / 9) = 1 / 3"
  by (rule real_sqrt_unique) (simp_all add: power2_eq_square)

lemma nine_column:
  "column 0 [[0], [0], [0], [0], [0], [0], [0], [0], [1]] = [0, 0, 0, 0, 0, 0, 0, 0, 1]"
  by (simp add: column_def)

lemma nine_mean: "mean [0, 0, 0, 0, 0, 0, 0, 0, 1] = 1 / 9"
  by (simp add: mean_def)

lemma nine_std: "std [0, 0, 0, 0, 0, 0, 0, 0, 1] = 1 / 3"
proof -
  have v: "sum_list (map (\<lambda>x. (x - 1 / 9)\<^sup>2) [0, 0, 0, 0, 0, 0, 0, 0, 1 :: real])
      / (real (length [0, 0, 0, 0, 0, 0, 0, 0, 1 :: real]) - 1) = 1 / 9"
    by (simp add: power2_eq_square)
  show ?thesis by (simp only: std_def nine_mean v sqrt_ninth)
qed

lemma nine_entries:
  assumes "1 \<le> n"
  shows "digitize_entry n [0, 0, 0, 0, 0, 0, 0, 0, 1] 0 = \<lfloor>5 * real_of_int n / 12\<rfloor>"
    and "digitize_entry n [0, 0, 0, 0, 0, 0, 0, 0, 1] 1 = n"
    and "\<lfloor>5 * real_of_int n / 12\<rfloor> < n"
proof -
  have a: "real_of_int n * (0 - (1 / 9 - 2 * (1 / 3))) / (1 / 9 + 2 * (1 / 3) - (1 / 9 - 2 * (1 / 3)))
      = 5 * real_of_int n / 12"
    by simp
  have b: "real_of_int n * (1 - (1 / 9 - 2 * (1 / 3))) / (1 / 9 + 2 * (1 / 3) - (1 / 9 - 2 * (1 / 3)))
      = 7 * real_of_int n / 6"
    by simp
  have c0: "clamp 0 (real_of_int n) (5 * real_of_int n / 12) = 5 * real_of_int n / 12"
    using assms by (simp add: clamp_def min_def max_def)
  have c1: "clamp 0 (real_of_int n) (7 * real_of_int n / 6) = real_of_int n"
    using assms by (simp add: clamp_def min_def max_def)
  show "digitize_entry n [0, 0, 0, 0, 0, 0, 0, 0, 1] 0 = \<lfloor>5 * real_of_int n / 12\<rfloor>"
    unfolding digitize_entry_def Let_def nine_mean nine_std a c0
    using assms by (simp add: int_of_float_def)
  show "digitize_entry n [0, 0, 0, 0, 0, 0, 0, 0, 1] 1 = n"
    unfolding digitize_entry_def Let_def nine_mean nine_std b c1
    using assms by (simp add: int_of_float_def)
  show "\<lfloor>5 * real_of_int n / 12\<rfloor> < n"
    using assms by (simp add: floor_less_iff)
qed

lemma nine_digitized_general:
  assumes "1 \<le> n"
  shows "digitized_fixed nine_samples n =
     [[\<lfloor>5 * real_of_int n / 12\<rfloor>], [\<lfloor>5 * real_of_int n / 12\<rfloor>], [\<lfloor>5 * real_of_int n / 12\<rfloor>],
      [\<lfloor>5 * real_of_int n / 12\<rfloor>], [\<lfloor>5 * real_of_int n / 12\<rfloor>], [\<lfloor>5 * real_of_int n / 12\<rfloor>],
      [\<lfloor>5 * real_of_int n / 12\<rfloor>], [\<lfloor>5 * real_of_int n / 12\<rfloor>], [n]]"
  unfolding nine_samples_def
  by (simp add: digitized_fixed_def nine_column is_nan_column_def nine_entries [OF assms])

lemma nine_digitized:
  "digitize_fixed name nine_samples 20 = Inr [[8], [8], [8], [8], [8], [8], [8], [8], [20]]"
  by (simp add: digitize_fixed_def nine_digitized_general)






text \<open>
  The search digitizes with bin counts of at least 2 only, so it runs on the quantile
  variant, which raises for a negative bin count alone, as on a \<^verbatim>\<open>digitize\<close> that always
  returns.
\<close>

lemma trial_cong:
  assumes "dg1 name acts b = dg2 name acts b"
  shows "trial dg1 cr name acts b = trial dg2 cr name acts b"
  using assms by (simp add: trial_def)

lemma trial_at_least_2:
  assumes "trial dg cr name acts b = Inr (b', stop)" and "2 \<le> b"
  shows "2 \<le> b'"
  using assms
  by (auto simp add: trial_def Let_def split: sum.splits if_splits)

lemma adjust_loop_cong:
  assumes "\<And>b. 2 \<le> b \<Longrightarrow> dg1 name acts b = dg2 name acts b" and "2 \<le> n0"
  shows "adjust_loop dg1 cr name acts k n0 = adjust_loop dg2 cr name acts k n0"
  using assms(2)
proof (induction k arbitrary: n0)
  case 0
  show ?case by simp
next
  case (Suc k)
  have t: "trial dg1 cr name acts n0 = trial dg2 cr name acts n0"
    using trial_cong [of dg1 name acts n0 dg2 cr] assms(1) [OF Suc.prems] by simp
  show ?case
  proof (cases "trial dg2 cr name acts n0")
    case (Inl e)
    then show ?thesis using t by simp
  next
    case (Inr r)
    obtain b' stop where r: "r = (b', stop)" by (cases r)
    have "2 \<le> b'" using trial_at_least_2 [of dg2 cr name acts n0 b' stop] Inr r Suc.prems by simp
    then show ?thesis using t Inr r Suc.IH [of b'] by simp
  qed
qed

lemma adjust_bins_quantile:
  "adjust_bins_trials digitize_quantile s name acts
     = adjust_bins_trials (returning (\<lambda>name. digitized_quantile)) s name acts"
  unfolding adjust_bins_trials_def
  by (rule adjust_loop_cong) (simp_all add: digitize_quantile_def returning_def n_bins_default_def)

subsection \<open>The symbol alphabet\<close>

lemma index_of_nth:
  "distinct us \<Longrightarrow> i < length us \<Longrightarrow> index_of us (us ! i) = int i"
proof (induction us arbitrary: i)
  case Nil
  then show ?case by simp
next
  case (Cons u us)
  show ?case
  proof (cases i)
    case 0
    then show ?thesis by (simp add: index_of_def)
  next
    case (Suc j)
    then have "us ! j \<in> set us" using Cons.prems(2) by simp
    then have "u \<noteq> us ! j" using Cons.prems(1) by auto
    then show ?thesis using Cons Suc by (simp add: index_of_def)
  qed
qed

lemma index_of_image:
  assumes "distinct us"
  shows "index_of us ` set us = {0 ..< int (length us)}"
proof
  show "index_of us ` set us \<subseteq> {0 ..< int (length us)}"
    using assms by (auto simp add: in_set_conv_nth index_of_nth)
  show "{0 ..< int (length us)} \<subseteq> index_of us ` set us"
  proof
    fix v assume v: "v \<in> {0 ..< int (length us)}"
    then have "nat v < length us" by (simp add: nat_less_iff)
    then have "index_of us (us ! nat v) = v" "us ! nat v \<in> set us"
      using assms v by (simp_all add: index_of_nth)
    then show "v \<in> index_of us ` set us" by (metis imageI)
  qed
qed

lemma index_of_inj:
  assumes "distinct us" and "x \<in> set us" and "y \<in> set us"
  shows "(index_of us x = index_of us y) = (x = y)"
  using assms by (auto simp add: in_set_conv_nth index_of_nth)

lemma inverse_of_spec:
  "length (inverse_of d) = length d
   \<and> set (inverse_of d) = {0 ..< int (card (set d))}
   \<and> (\<forall>i<length d. \<forall>j<length d. (inverse_of d ! i = inverse_of d ! j) = (d ! i = d ! j))"
proof -
  have s: "set (inverse_of d) = {0 ..< int (card (set d))}"
    using index_of_image [OF distinct_unique, of d]
    by (simp add: inverse_of_def set_unique length_unique)
  have e: "\<forall>i<length d. \<forall>j<length d. (inverse_of d ! i = inverse_of d ! j) = (d ! i = d ! j)"
    using index_of_inj [OF distinct_unique, of _ d]
    by (simp add: inverse_of_def set_unique)
  show ?thesis using s e by (simp add: inverse_of_def)
qed

lemma quantize_symbols:
  assumes "digitize name acts n = Inr d" and "length d = length acts"
  shows "\<exists>q. quantize digitize name acts n = Inr q
      \<and> length q = length acts
      \<and> set q = {0 ..< int (card (set d))}
      \<and> (\<forall>i<length acts. \<forall>j<length acts. (q ! i = q ! j) = (d ! i = d ! j))
      \<and> card (set q) \<le> length acts"
proof -
  have q: "quantize digitize name acts n = Inr (inverse_of d)"
    using assms(1) by (simp add: quantize_def)
  have l: "length (inverse_of d) = length acts"
    using inverse_of_spec [of d] assms(2) by simp
  have c: "card (set (inverse_of d)) \<le> length acts"
    using card_length [of "inverse_of d"] l by simp
  show ?thesis
    apply (rule exI [of _ "inverse_of d"])
    using q l c inverse_of_spec [of d] assms(2) apply simp
    done
qed

lemma digitize_quantile_returns:
  assumes "0 \<le> n"
  shows "\<exists>d. digitize_quantile name acts n = Inr d \<and> length d = length acts"
  using assms by (simp add: digitize_quantile_def digitized_quantile_def)

text \<open>
  C6. For the fixed-range and the quantile variant, which inherit \<^verbatim>\<open>quantize\<close>, and every
  non-empty activation matrix (for the quantile variant, a bin count that is not
  negative): \<^verbatim>\<open>digitize\<close> returns one row per sample, and \<^verbatim>\<open>quantize\<close> returns one integer
  symbol per sample, two samples having the same symbol exactly when their digitized
  rows are equal, the symbols being \<open>0, \<dots>, k - 1\<close> for \<open>k\<close> distinct rows; hence there are
  no more distinct symbols than samples.
\<close>

theorem quantize_spec:
  assumes "acts \<noteq> []"
  shows "(\<exists>d q. digitize_fixed name acts n = Inr d \<and> length d = length acts
            \<and> quantize digitize_fixed name acts n = Inr q
            \<and> length q = length acts
            \<and> set q = {0 ..< int (card (set d))}
            \<and> (\<forall>i<length acts. \<forall>j<length acts. (q ! i = q ! j) = (d ! i = d ! j))
            \<and> card (set q) \<le> length acts)
      \<and> (0 \<le> n \<longrightarrow>
          (\<exists>d q. digitize_quantile name acts n = Inr d \<and> length d = length acts
            \<and> quantize digitize_quantile name acts n = Inr q
            \<and> length q = length acts
            \<and> set q = {0 ..< int (card (set d))}
            \<and> (\<forall>i<length acts. \<forall>j<length acts. (q ! i = q ! j) = (d ! i = d ! j))
            \<and> card (set q) \<le> length acts))"
proof (intro conjI impI)
  have d: "digitize_fixed name acts n = Inr (digitized_fixed acts n)"
    by (simp add: digitize_fixed_def)
  show "\<exists>d q. digitize_fixed name acts n = Inr d \<and> length d = length acts
            \<and> quantize digitize_fixed name acts n = Inr q
            \<and> length q = length acts
            \<and> set q = {0 ..< int (card (set d))}
            \<and> (\<forall>i<length acts. \<forall>j<length acts. (q ! i = q ! j) = (d ! i = d ! j))
            \<and> card (set q) \<le> length acts"
    using quantize_symbols [of digitize_fixed name acts n, OF d length_digitized_fixed] d
      length_digitized_fixed [of acts n]
    by blast
next
  assume "0 \<le> n"
  then obtain d where d: "digitize_quantile name acts n = Inr d" and l: "length d = length acts"
    using digitize_quantile_returns [of n name acts] by blast
  show "\<exists>d q. digitize_quantile name acts n = Inr d \<and> length d = length acts
            \<and> quantize digitize_quantile name acts n = Inr q
            \<and> length q = length acts
            \<and> set q = {0 ..< int (card (set d))}
            \<and> (\<forall>i<length acts. \<forall>j<length acts. (q ! i = q ! j) = (d ! i = d ! j))
            \<and> card (set q) \<le> length acts"
    using quantize_symbols [of digitize_quantile name acts n, OF d l] d l by blast
qed

lemma constant_column_digitized:
  "digitize_fixed name [[3], [3], [3]] 20 = Inr [[int64_min], [int64_min], [int64_min]]"
  "digitize_fixed name [[5]] 20 = Inr [[int64_min]]"
  by (simp_all add: digitize_fixed_def digitized_fixed_def column_def is_nan_column_def)

lemma nine_linspace: "linspace 3 = [0, 50, 100]"
  by (simp add: linspace_def upt_conv_Cons)

lemma nine_percentiles:
  "percentile [0, 0, 0, 0, 0, 0, 0, 0, 1] 0 = 0"
  "percentile [0, 0, 0, 0, 0, 0, 0, 0, 1] 50 = 0"
  "percentile [0, 0, 0, 0, 0, 0, 0, 0, 1] 100 = 1"
  by (simp_all add: percentile_def Let_def)

lemma nine_quantiles:
  "digitize_quantile name nine_samples 3 = Inr [[0], [0], [0], [0], [0], [0], [0], [0], [2]]"
  unfolding nine_samples_def
  by (simp add: digitize_quantile_def digitized_quantile_def nine_column nine_linspace
      nine_percentiles np_digitize_def)

theorem quantize_spec_witness:
  "nine_samples \<noteq> []
   \<and> digitize_fixed ''fc1'' nine_samples 20 = Inr [[8], [8], [8], [8], [8], [8], [8], [8], [20]]
   \<and> quantize digitize_fixed ''fc1'' nine_samples 20 = Inr [0, 0, 0, 0, 0, 0, 0, 0, 1]
   \<and> (0 :: int) \<le> 3
   \<and> digitize_quantile ''fc1'' nine_samples 3 = Inr [[0], [0], [0], [0], [0], [0], [0], [0], [2]]
   \<and> quantize digitize_quantile ''fc1'' nine_samples 3 = Inr [0, 0, 0, 0, 0, 0, 0, 0, 1]
   \<and> (\<exists>d q. digitize_quantile ''fc1'' nine_samples 3 = Inr d \<and> length d = length nine_samples
        \<and> quantize digitize_quantile ''fc1'' nine_samples 3 = Inr q
        \<and> length q = length nine_samples \<and> card (set q) \<le> length nine_samples)"
proof -
  have h1: "nine_samples \<noteq> []" by (simp add: nine_samples_def)
  note t = quantize_spec [where acts = nine_samples and name = "''fc1''" and n = 3, OF h1]
  have h2: "(0 :: int) \<le> 3" by simp
  obtain d q where a: "digitize_quantile ''fc1'' nine_samples 3 = Inr d"
    and b: "length d = length nine_samples"
    and c: "quantize digitize_quantile ''fc1'' nine_samples 3 = Inr q"
    and e: "length q = length nine_samples" and f: "card (set q) \<le> length nine_samples"
    using t [THEN conjunct2, rule_format, OF h2]
    by (elim exE conjE) (rule that; assumption)
  have ex: "\<exists>d q. digitize_quantile ''fc1'' nine_samples 3 = Inr d \<and> length d = length nine_samples
        \<and> quantize digitize_quantile ''fc1'' nine_samples 3 = Inr q
        \<and> length q = length nine_samples \<and> card (set q) \<le> length nine_samples"
    apply (rule exI [of _ d])
    apply (rule exI [of _ q])
    using a b c e f apply (intro conjI)
    apply assumption+
    done
  have v1: "quantize digitize_fixed ''fc1'' nine_samples 20 = Inr [0, 0, 0, 0, 0, 0, 0, 0, 1]"
    by (simp add: quantize_def nine_digitized inverse_of_def unique_def index_of_def)
  have v2: "quantize digitize_quantile ''fc1'' nine_samples 3 = Inr [0, 0, 0, 0, 0, 0, 0, 0, 1]"
    by (simp add: quantize_def nine_quantiles inverse_of_def unique_def index_of_def)
  show ?thesis
    using h1 nine_digitized [of "''fc1''"] v1 h2 nine_quantiles [of "''fc1''"] v2 ex
    by (intro conjI)
qed

text \<open>
  C7. The fixed-range digitization clamps to \<open>[0, n_bins]\<close> and truncates, so that a
  sample at or beyond mean + 2 stddev gets the level \<open>n_bins\<close>, one more than the
  \<open>n_bins\<close> levels \<open>0, \<dots>, n_bins - 1\<close>: with 20 bins, nine samples of which eight are 0
  and one is 1 (mean 1/9, deviation 1/3) are digitized to 8 and to 20.
\<close>

theorem digitize_fixed_top_level:
  "digitize_fixed ''fc1'' nine_samples 20
     = Inr [[8], [8], [8], [8], [8], [8], [8], [8], [20]]"
  by (rule nine_digitized)

text \<open>
  C8. For the k-means variant \<^verbatim>\<open>quantize\<close> is \<^verbatim>\<open>digitize\<close>, the cluster index that
  \<^verbatim>\<open>fit_predict\<close> gives each sample; the inverse indexing of the other variants is not
  applied. On the clustering (2, \<dots>, 2, 0) of the nine samples it returns these labels,
  where the inherited \<^verbatim>\<open>quantize\<close> would return (1, \<dots>, 1, 0).
\<close>

theorem quantize_kmeans_spec:
  "quantize_kmeans fit_predict name acts n = digitize_kmeans fit_predict name acts n
   \<and> quantize_kmeans fit_predict name acts n = fit_predict n acts
   \<and> quantize_kmeans example_fit_predict ''fc1'' nine_samples 3
        = Inr [2, 2, 2, 2, 2, 2, 2, 2, 0]
   \<and> quantize (digitize_kmeans example_fit_predict) ''fc1'' nine_samples 3
        = Inr [1, 1, 1, 1, 1, 1, 1, 1, 0]"
  by (simp add: quantize_kmeans_def digitize_kmeans_def quantize_def example_fit_predict_def
      nine_samples_def inverse_of_def unique_def index_of_def)

subsection \<open>The reporting step\<close>

lemma get_n_bins_frame:
  "information (snd (get_n_bins name s)) = information s"
  "is_active (snd (get_n_bins name s)) = is_active s"
  "quantized (snd (get_n_bins name s)) = quantized s"
  "debug (snd (get_n_bins name s)) = debug s"
  by (simp_all add: get_n_bins_def split: option.splits)

lemma read_n_bins_frame:
  "information (snd (read_n_bins names s)) = information s \<and>
   is_active (snd (read_n_bins names s)) = is_active s \<and>
   quantized (snd (read_n_bins names s)) = quantized s"
proof (induction names arbitrary: s)
  case Nil
  show ?case by simp
next
  case (Cons name names)
  obtain n s1 where g: "get_n_bins name s = (n, s1)" by (cases "get_n_bins name s")
  obtain ns s2 where r: "read_n_bins names s1 = (ns, s2)" by (cases "read_n_bins names s1")
  have f1: "information s1 = information s" "is_active s1 = is_active s"
      "quantized s1 = quantized s"
    using get_n_bins_frame [of name s] g by simp_all
  show ?case using Cons.IH [of s1] g r f1 by simp
qed

lemma fill_counts_error: "fill_counts n qs = Inl e \<Longrightarrow> e = ValueError"
  by (induction n qs rule: fill_counts.induct) (auto simp add: Let_def split: if_splits sum.splits)

lemma as_row_error: "as_row a = Inl e \<Longrightarrow> e = ValueError"
  by (cases a rule: as_row.cases) simp_all

lemma vstack_error: "vstack as = Inl e \<Longrightarrow> e = ValueError"
  by (induction as rule: vstack.induct)
    (auto simp add: as_row_error split: if_splits sum.splits)

lemma dispersion_frame:
  "information (fst (snd (plot_quantized_dispersion gate s))) = information s \<and>
   is_active (fst (snd (plot_quantized_dispersion gate s))) = is_active s"
proof -
  obtain bins s1 where r: "read_n_bins (map fst (quantized s)) s = (bins, s1)"
    by (cases "read_n_bins (map fst (quantized s)) s")
  obtain n s2 where g: "get_n_bins ''input'' s1 = (n, s2)" by (cases "get_n_bins ''input'' s1")
  have f1: "information s1 = information s" "is_active s1 = is_active s"
    using read_n_bins_frame [of "map fst (quantized s)" s] r by simp_all
  have f2: "information s2 = information s1" "is_active s2 = is_active s1"
    using get_n_bins_frame [of "''input''" s1] g by simp_all
  show ?thesis
    using r g f1 f2
    by (simp add: plot_quantized_dispersion_def Let_def split: sum.splits)
qed

lemma dispersion_error:
  "fst (plot_quantized_dispersion gate s) = Some e \<Longrightarrow> e = ValueError"
  by (auto simp add: plot_quantized_dispersion_def Let_def fill_counts_error vstack_error
      split: if_splits sum.splits prod.splits)

lemma dispersion_closed: "plot_quantized_dispersion False s = (None, s, [])"
  by (simp add: plot_quantized_dispersion_def)

lemma fold_drain_item:
  "fold drain_item items (ys, xs, legend, s) =
     (ys @ map (\<lambda>item. snd (snd item)) items, xs @ map (\<lambda>item. fst (snd item)) items,
      legend @ map fst items,
      s\<lparr>information := filter (\<lambda>entry. fst entry \<notin> fst ` set items) (information s)\<rparr>)"
proof (induction items arbitrary: ys xs legend s)
  case Nil
  show ?case by simp
next
  case (Cons item items)
  obtain layer_name info_x info_y where i: "item = (layer_name, info_x, info_y)"
    by (cases item)
  have d: "drain_item item (ys, xs, legend, s) =
      (ys @ [info_y], xs @ [info_x], legend @ [layer_name],
       s\<lparr>information := AList.delete layer_name (information s)\<rparr>)"
    by (simp add: drain_item_def i)
  have f: "filter (\<lambda>entry. fst entry \<notin> fst ` set items)
             (AList.delete layer_name (information s))
         = filter (\<lambda>entry. fst entry \<notin> fst ` set (item # items)) (information s)"
    by (auto simp add: i AList.delete_eq intro!: filter_cong)
  show ?case unfolding fold_simps d Cons.IH using f by (simp add: i)
qed

text \<open>
  What \<^verbatim>\<open>plot\<close> does in general: the assertion fails exactly when a pass is active; an
  empty record means no call; and when \<^verbatim>\<open>plot\<close> returns on a record that is not empty,
  the record has been emptied into \<^verbatim>\<open>viz.line\<close>. It returns when the gate skips
  \<^verbatim>\<open>plot_quantized_dispersion\<close>.
\<close>

lemma plot_cases:
  "(fst (plot gate win_exists s) = Some AssertionError) = is_active s
   \<and> (is_active s \<longrightarrow> plot gate win_exists s = (Some AssertionError, s, []))
   \<and> (\<not> is_active s \<and> information s = [] \<longrightarrow> plot gate win_exists s = (None, s, []))
   \<and> (\<not> is_active s \<and> information s \<noteq> [] \<and> fst (plot gate win_exists s) = None \<longrightarrow>
        information (fst (snd (plot gate win_exists s))) = []
        \<and> snd (snd (plot gate win_exists s)) =
            snd (snd (plot_quantized_dispersion gate s))
            @ [Line (if length (information s) > 1
                     then Mat [map (\<lambda>item. snd (snd item)) (information s)]
                     else Vec (map (\<lambda>item. snd (snd item)) (information s)))
                    (if length (information s) > 1
                     then Mat [map (\<lambda>item. fst (snd item)) (information s)]
                     else Vec (map (\<lambda>item. fst (snd item)) (information s)))
                    (map fst (information s))
                    (win_exists ''Mutual information plane'')])
   \<and> (\<not> is_active s \<and> \<not> gate \<longrightarrow> fst (plot gate win_exists s) = None)"
proof -
  obtain r s1 calls where d: "plot_quantized_dispersion gate s = (r, s1, calls)"
    by (cases "plot_quantized_dispersion gate s")
  have i1: "information s1 = information s"
    using dispersion_frame [of gate s] d by simp
  have e1: "r = Some e \<Longrightarrow> e = ValueError" for e
    using dispersion_error [of gate s e] d by simp
  have p1: "is_active s \<Longrightarrow> plot gate win_exists s = (Some AssertionError, s, [])"
    by (simp add: plot_def)
  have p2: "\<not> is_active s \<Longrightarrow> information s = [] \<Longrightarrow> plot gate win_exists s = (None, s, [])"
    by (simp add: plot_def)
  have p3: "\<not> is_active s \<Longrightarrow> information s \<noteq> [] \<Longrightarrow> r = Some e \<Longrightarrow>
      plot gate win_exists s = (Some ValueError, s1, calls)" for e
    using d e1 [of e] by (simp add: plot_def)
  have p4: "plot gate win_exists s =
      (None,
       s1\<lparr>information := filter (\<lambda>entry. fst entry \<notin> fst ` set (information s)) (information s)\<rparr>,
       calls @ [Line (if length (information s) > 1
                     then Mat [map (\<lambda>item. snd (snd item)) (information s)]
                     else Vec (map (\<lambda>item. snd (snd item)) (information s)))
                    (if length (information s) > 1
                     then Mat [map (\<lambda>item. fst (snd item)) (information s)]
                     else Vec (map (\<lambda>item. fst (snd item)) (information s)))
                    (map fst (information s))
                    (win_exists ''Mutual information plane'')])"
    if "\<not> is_active s" and "information s \<noteq> []" and "r = None"
    using that d i1 by (simp add: plot_def fold_drain_item)
  have emp: "filter (\<lambda>entry. fst entry \<notin> fst ` set (information s)) (information s) = []"
    by (simp add: filter_empty_conv)
  have c1: "(fst (plot gate win_exists s) = Some AssertionError) = is_active s"
  proof (cases "is_active s")
    case True
    then show ?thesis using p1 by simp
  next
    case False
    show ?thesis
    proof (cases "information s = []")
      case True
      then show ?thesis using False p2 by simp
    next
      case ne: False
      show ?thesis
      proof (cases r)
        case None
        then show ?thesis using p4 [OF False ne] False by simp
      next
        case (Some e)
        then show ?thesis using p3 [OF False ne] False by simp
      qed
    qed
  qed
  have c4: "\<not> is_active s \<and> information s \<noteq> [] \<and> fst (plot gate win_exists s) = None \<longrightarrow>
        information (fst (snd (plot gate win_exists s))) = []
        \<and> snd (snd (plot gate win_exists s)) =
            snd (snd (plot_quantized_dispersion gate s))
            @ [Line (if length (information s) > 1
                     then Mat [map (\<lambda>item. snd (snd item)) (information s)]
                     else Vec (map (\<lambda>item. snd (snd item)) (information s)))
                    (if length (information s) > 1
                     then Mat [map (\<lambda>item. fst (snd item)) (information s)]
                     else Vec (map (\<lambda>item. fst (snd item)) (information s)))
                    (map fst (information s))
                    (win_exists ''Mutual information plane'')]"
  proof (intro impI, elim conjE)
    assume a: "\<not> is_active s" and ne: "information s \<noteq> []"
      and n: "fst (plot gate win_exists s) = None"
    have "r = None"
    proof (cases r)
      case None
      then show ?thesis .
    next
      case (Some e)
      then show ?thesis using p3 [OF a ne] n by simp
    qed
    then show "information (fst (snd (plot gate win_exists s))) = []
        \<and> snd (snd (plot gate win_exists s)) =
            snd (snd (plot_quantized_dispersion gate s))
            @ [Line (if length (information s) > 1
                     then Mat [map (\<lambda>item. snd (snd item)) (information s)]
                     else Vec (map (\<lambda>item. snd (snd item)) (information s)))
                    (if length (information s) > 1
                     then Mat [map (\<lambda>item. fst (snd item)) (information s)]
                     else Vec (map (\<lambda>item. fst (snd item)) (information s)))
                    (map fst (information s))
                    (win_exists ''Mutual information plane'')]"
      using p4 [OF a ne] emp d by simp
  qed
  have c5: "\<not> is_active s \<and> \<not> gate \<longrightarrow> fst (plot gate win_exists s) = None"
  proof (intro impI, elim conjE)
    assume a: "\<not> is_active s" and g: "\<not> gate"
    have "r = None" using d g by (simp add: plot_quantized_dispersion_def)
    then show "fst (plot gate win_exists s) = None"
      using p2 [OF a] p4 [OF a] by (cases "information s = []") simp_all
  qed
  show ?thesis using c1 p1 p2 c4 c5 by (intro conjI impI) simp_all
qed

lemma crowded_fields:
  "\<not> is_active crowded" "information crowded = [(''fc1'', 1, 1 / 2)]"
  "n_bins crowded = [(''input'', 2), (''fc1'', 2)]"
  "quantized crowded = [(''input'', Array [0, 1, 2, 3]), (''fc1'', Array [0, 1, 1, 0])]"
  by (simp_all add: crowded_def fresh_fields)

lemma crowded_counts: "unique_counts (map real_of_int [0, 1, 2, 3]) = [1, 1, 1, 1]"
  by (simp add: unique_counts_def unique_def)

text \<open>
  C9. With no pass active and a record that is not empty, \<^verbatim>\<open>plot\<close> is to pass every entry
  to the plotting collaborator and empty the record. It does so when the scheduling gate
  skips \<^verbatim>\<open>plot_quantized_dispersion\<close> (last conjunct). When the gate admits it and all
  layers have one bin count, that method writes the counts of each layer's symbols into a
  row of \<open>n_bins\<close> zeros; the four symbols of \<^verbatim>\<open>'input'\<close> do not fit into two columns, numpy
  raises ValueError, and \<^verbatim>\<open>plot\<close> ends there: the record keeps its entry and the
  plotting collaborator is not called.
\<close>

theorem plot_dispersion_crash:
  "\<not> is_active crowded \<and> information crowded = [(''fc1'', 1, 1 / 2)]
   \<and> plot True no_windows crowded = (Some ValueError, crowded, [])
   \<and> plot False no_windows crowded
       = (None, crowded\<lparr>information := []\<rparr>,
          [Line (Vec [1 / 2]) (Vec [1]) [''fc1''] False])"
proof -
  have r: "read_n_bins [''input'', ''fc1''] crowded = ([2, 2], crowded)"
    by (simp add: get_n_bins_def crowded_fields)
  have g: "get_n_bins ''input'' crowded = (2, crowded)"
    by (simp add: get_n_bins_def crowded_fields)
  have f: "fill_counts 2 (quantized crowded) = Inl ValueError"
    using crowded_counts by (simp add: crowded_fields Let_def)
  have d: "plot_quantized_dispersion True crowded = (Some ValueError, crowded, [])"
    using r g f by (simp add: plot_quantized_dispersion_def crowded_fields Let_def)
  have p: "plot True no_windows crowded = (Some ValueError, crowded, [])"
    using d by (simp add: plot_def crowded_fields)
  have d': "plot_quantized_dispersion False crowded = (None, crowded, [])"
    by (simp add: plot_quantized_dispersion_def)
  have p': "plot False no_windows crowded
       = (None, crowded\<lparr>information := []\<rparr>,
          [Line (Vec [1 / 2]) (Vec [1]) [''fc1''] False])"
    using d' by (simp add: plot_def crowded_fields drain_item_def no_windows_def)
  show ?thesis using crowded_fields(1,2) p p' by (intro conjI)
qed

end
